theory Spec2Isabelle
  imports Complex_Main "HOL-Library.Monad_Syntax"
begin

section \<open>Numeric model\<close>

text \<open>
  The notebook computes on numpy float64 arrays. In the first reading a finite float is
  idealised as a \<^typ>\<open>real\<close> (no rounding, no overflow of \<open>exp\<close>); a result that numpy
  reports as \<open>nan\<close> or \<open>inf\<close> (logarithm of a non-positive number, a negative base raised
  to a fractional power, a division by zero) is \<open>None\<close>. Every arithmetic operation of the
  source that receives such a value returns one again, so \<open>None\<close> is propagated. This
  reading decides which expression, which difference scheme, which reduction and which
  layout the code computes. The second reading, section \<open>Float64 arithmetic\<close>, rounds
  every operation; it decides the range and the order of the computed values.
\<close>

type_synonym fval = "real option"

datatype error = IndexError | ValueError

definition np_log :: "real \<Rightarrow> fval" where
  "np_log x = (if 0 < x then Some (ln x) else None)"

text \<open>\<open>b ** e\<close> on floats: C \<open>pow\<close>.\<close>

definition np_power :: "real \<Rightarrow> real \<Rightarrow> fval" where
  "np_power b e =
     (if e = 0 then Some 1
      else if 0 < b then Some (exp (e * ln b))
      else if b = 0 then (if 0 < e then Some 0 else None)
      else if e = of_int \<lfloor>e\<rfloor>
        then Some (if 0 \<le> e then b ^ nat \<lfloor>e\<rfloor> else 1 / b ^ nat (- \<lfloor>e\<rfloor>))
      else None)"

text \<open>\<open>def sigmoid(x): return 1./(1. +  np.exp(-x))\<close>, in exact arithmetic.\<close>

definition sigmoid :: "real \<Rightarrow> real" where
  "sigmoid x = 1 / (1 + exp (- x))"

section \<open>The loss kernel\<close>

text \<open>
  The inner function of \<open>focal_loss_lgb\<close>, on one cell and in exact arithmetic; \<open>a\<close> and
  \<open>g\<close> are the closed-over \<open>alpha\<close> and \<open>gamma\<close>:
  \<^verbatim>\<open>
  def fl(x,t):
      p = 1/(1+np.exp(-x))
      return -( a*t + (1-a)*(1-t) ) * (( 1 - ( t*p + (1-t)*(1-p)) )**g)
             * ( t*np.log(p)+(1-t)*np.log(1-p) )
  \<close>
\<close>

definition fl :: "real \<Rightarrow> real \<Rightarrow> real \<Rightarrow> real \<Rightarrow> fval" where
  "fl a g x t =
     (let p = 1 / (1 + exp (- x)) in
      do {
        m \<leftarrow> np_power (1 - (t * p + (1 - t) * (1 - p))) g;
        lp \<leftarrow> np_log p;
        lq \<leftarrow> np_log (1 - p);
        Some (- (a * t + (1 - a) * (1 - t)) * m * (t * lp + (1 - t) * lq))
      })"

text \<open>
  The same kernel as section 4.1 of the specification words it, over the reals:
  weight, modulation and cross entropy, with \<open>**\<close> read as the real power.
\<close>

definition spec_weight :: "real \<Rightarrow> real \<Rightarrow> real" where
  "spec_weight alpha t = alpha * t + (1 - alpha) * (1 - t)"

definition spec_modulation :: "real \<Rightarrow> real \<Rightarrow> real \<Rightarrow> real" where
  "spec_modulation gamma p t = (1 - (t * p + (1 - t) * (1 - p))) powr gamma"

definition spec_cross_entropy :: "real \<Rightarrow> real \<Rightarrow> real" where
  "spec_cross_entropy p t = t * ln p + (1 - t) * ln (1 - p)"

definition spec_loss :: "real \<Rightarrow> real \<Rightarrow> real \<Rightarrow> real \<Rightarrow> real" where
  "spec_loss alpha gamma x t =
     (let p = sigmoid x in
      - spec_weight alpha t * spec_modulation gamma p t * spec_cross_entropy p t)"

section \<open>Arrays\<close>

text \<open>
  A 1-D array is a list, a 2-D array a list of rows. \<open>reshape(-1, c)\<close> of a C-ordered
  buffer cuts it into rows of \<open>c\<close> and raises ValueError when that is impossible.
\<close>

definition reshape :: "'a list \<Rightarrow> nat \<Rightarrow> error + 'a list list" where
  "reshape xs c =
     (if c = 0 \<or> length xs mod c \<noteq> 0 then Inl ValueError
      else Inr (map (\<lambda>i. take c (drop (i * c) xs)) [0..<length xs div c]))"

text \<open>\<open>A.flatten('F')\<close> of an array with \<open>c\<close> columns: column after column.\<close>

definition flatten_F :: "nat \<Rightarrow> 'a list list \<Rightarrow> 'a list" where
  "flatten_F c A = concat (map (\<lambda>j. map (\<lambda>row. row ! j) A) [0..<c])"

text \<open>\<open>np.eye(n)\<close>\<close>

definition eye :: "nat \<Rightarrow> real list list" where
  "eye n = map (\<lambda>i. map (\<lambda>j. if i = j then 1 else 0) [0..<n]) [0..<n]"

text \<open>\<open>astype('int')\<close> truncates toward zero.\<close>

definition astype_int :: "real \<Rightarrow> int" where
  "astype_int r = (if 0 \<le> r then \<lfloor>r\<rfloor> else \<lceil>r\<rceil>)"

text \<open>Indexing with an integer: a negative index counts from the end.\<close>

definition take_row :: "'a list \<Rightarrow> int \<Rightarrow> error + 'a" where
  "take_row xs k =
     (let n = int (length xs); j = (if k < 0 then k + n else k)
      in if 0 \<le> j \<and> j < n then Inr (xs ! nat j) else Inl IndexError)"

fun collect :: "(error + 'a) list \<Rightarrow> error + 'a list" where
  "collect [] = Inr []"
| "collect (Inl e # _) = Inl e"
| "collect (Inr v # rs) = (case collect rs of Inl e \<Rightarrow> Inl e | Inr vs \<Rightarrow> Inr (v # vs))"

text \<open>\<open>np.eye(num_class)[y_true.astype('int')]\<close>\<close>

definition one_hot :: "nat \<Rightarrow> real list \<Rightarrow> error + real list list" where
  "one_hot num_class y_true = collect (map (\<lambda>r. take_row (eye num_class) (astype_int r)) y_true)"

text \<open>
  An elementwise binary operation on two 2-D arrays with the same number of columns:
  numpy broadcasts a single row against many and raises ValueError when the row counts
  differ otherwise.
\<close>

definition broadcast2 :: "('a \<Rightarrow> 'b \<Rightarrow> 'c) \<Rightarrow> 'a list list \<Rightarrow> 'b list list \<Rightarrow> error + 'c list list" where
  "broadcast2 f X T =
     (if length X = length T then Inr (map2 (map2 f) X T)
      else if length X = 1 then Inr (map (\<lambda>trow. map2 f (hd X) trow) T)
      else if length T = 1 then Inr (map (\<lambda>xrow. map2 f xrow (hd T)) X)
      else Inl ValueError)"

definition arr_shift :: "real list list \<Rightarrow> real \<Rightarrow> real list list" where
  "arr_shift X d = map (map (\<lambda>x. x + d)) X"

definition arr_scale :: "real \<Rightarrow> fval list list \<Rightarrow> fval list list" where
  "arr_scale w A = map (map (map_option (\<lambda>v. w * v))) A"

definition scalar_add :: "real \<Rightarrow> fval list list \<Rightarrow> fval list list" where
  "scalar_add s A = map (map (map_option (\<lambda>v. s + v))) A"

definition fadd :: "fval \<Rightarrow> fval \<Rightarrow> fval" where
  "fadd u v = do { a \<leftarrow> u; b \<leftarrow> v; Some (a + b) }"

definition arr_add :: "fval list list \<Rightarrow> fval list list \<Rightarrow> fval list list" where
  "arr_add A B = map2 (map2 fadd) A B"

definition fdiv :: "fval \<Rightarrow> real \<Rightarrow> fval" where
  "fdiv u d = (if d = 0 then None else map_option (\<lambda>v. v / d) u)"

definition arr_div :: "fval list list \<Rightarrow> real \<Rightarrow> fval list list" where
  "arr_div A d = map (map (\<lambda>u. fdiv u d)) A"

section \<open>Numerical differentiation\<close>

text \<open>
  Modelled from the spec: \<open>scipy.misc.derivative\<close> is imported by the notebook and is not
  part of its source. Section 4.2 of the specification calls it a centered
  finite-difference scheme; the model is the library's three-point rule (its default
  \<open>order=3\<close>): weights \<open>[-1,0,1]/2\<close> for \<open>n=1\<close> and \<open>[1,-2,1]\<close> for \<open>n=2\<close>, the sum
  \<open>val += weights[k]*func(x0+(k-ho)*dx)\<close> for \<open>k = 0, 1, 2\<close> with \<open>ho = 1\<close> starting from
  \<open>val = 0.0\<close>, and the result \<open>val / dx**n\<close>. The three rounds of the loop are written
  out; a call of \<open>func\<close> that raises ends the computation. For \<open>n=0\<close> the weights are
  \<open>[0,1,0]\<close>; more than two derivatives need more than three points: ValueError.
\<close>

definition central_weights :: "nat \<Rightarrow> real list option" where
  "central_weights n =
     (if n = 0 then Some [0, 1, 0]
      else if n = 1 then Some [- 1 / 2, 0 / 2, 1 / 2]
      else if n = 2 then Some [1, - 2, 1]
      else None)"

definition derivative ::
  "(real list list \<Rightarrow> error + fval list list) \<Rightarrow> real list list \<Rightarrow> nat \<Rightarrow> real \<Rightarrow> error + fval list list" where
  "derivative func x0 n dx =
     (case central_weights n of
        None \<Rightarrow> Inl ValueError
      | Some w \<Rightarrow>
         (case func (arr_shift x0 ((0 - 1) * dx)) of
            Inl e \<Rightarrow> Inl e
          | Inr f0 \<Rightarrow>
         (case func (arr_shift x0 ((1 - 1) * dx)) of
            Inl e \<Rightarrow> Inl e
          | Inr f1 \<Rightarrow>
         (case func (arr_shift x0 ((2 - 1) * dx)) of
            Inl e \<Rightarrow> Inl e
          | Inr f2 \<Rightarrow>
             Inr (arr_div
                   (arr_add (arr_add (scalar_add 0 (arr_scale (w ! 0) f0)) (arr_scale (w ! 1) f1))
                            (arr_scale (w ! 2) f2))
                   (dx ^ n))))))"

section \<open>The objective and the evaluation metric\<close>

text \<open>Of the \<open>lightgbm.Dataset\<close> handle only the field \<open>label\<close> is read.\<close>

record Dataset =
  label :: "real list"

text \<open>The step of both finite differences, \<open>dx=1e-6\<close>.\<close>

definition dx_step :: real where
  "dx_step = 1 / 10 ^ 6"

definition focal_loss_lgb ::
  "real list \<Rightarrow> Dataset \<Rightarrow> real \<Rightarrow> real \<Rightarrow> nat \<Rightarrow> error + (fval list \<times> fval list)" where
  "focal_loss_lgb y_pred dtrain alpha gamma num_class =
     (let a = alpha; g = gamma; y_true = label dtrain in
      case one_hot num_class y_true of
        Inl e \<Rightarrow> Inl e
      | Inr y_true \<Rightarrow>
     (case reshape y_pred num_class of
        Inl e \<Rightarrow> Inl e
      | Inr y_pred \<Rightarrow>
     (let partial_fl = (\<lambda>x. broadcast2 (fl a g) x y_true) in
      case derivative partial_fl y_pred 1 dx_step of
        Inl e \<Rightarrow> Inl e
      | Inr grad \<Rightarrow>
     (case derivative partial_fl y_pred 2 dx_step of
        Inl e \<Rightarrow> Inl e
      | Inr hess \<Rightarrow> Inr (flatten_F num_class grad, flatten_F num_class hess)))))"

text \<open>
  The two lines of \<open>focal_loss_lgb_eval_error\<close> that compute \<open>p\<close> and \<open>loss\<close>, on one cell:
  \<^verbatim>\<open>
  p = 1/(1+np.exp(-y_pred))
  loss = -( a*y_true + (1-a)*(1-y_true) ) * (( 1 - ( y_true*p + (1-y_true)*(1-p)) )**g)
         * ( y_true*np.log(p)+(1-y_true)*np.log(1-p) )
  \<close>
\<close>

definition eval_p :: "real \<Rightarrow> real" where
  "eval_p y_pred = 1 / (1 + exp (- y_pred))"

definition eval_loss :: "real \<Rightarrow> real \<Rightarrow> real \<Rightarrow> real \<Rightarrow> fval" where
  "eval_loss a g p y_true =
     do {
       m \<leftarrow> np_power (1 - (y_true * p + (1 - y_true) * (1 - p))) g;
       lp \<leftarrow> np_log p;
       lq \<leftarrow> np_log (1 - p);
       Some (- (a * y_true + (1 - a) * (1 - y_true)) * m * (y_true * lp + (1 - y_true) * lq))
     }"

text \<open>\<open>np.mean\<close> over all cells: \<open>nan\<close> for an empty array and when a cell is not finite.\<close>

fun fsum :: "fval list \<Rightarrow> fval" where
  "fsum [] = Some 0"
| "fsum (u # us) = fadd u (fsum us)"

definition np_mean :: "fval list list \<Rightarrow> fval" where
  "np_mean A = (let cells = concat A in fdiv (fsum cells) (real (length cells)))"

definition focal_loss_lgb_eval_error ::
  "real list \<Rightarrow> Dataset \<Rightarrow> real \<Rightarrow> real \<Rightarrow> nat \<Rightarrow> error + (string \<times> fval \<times> bool)" where
  "focal_loss_lgb_eval_error y_pred dtrain alpha gamma num_class =
     (let a = alpha; g = gamma; y_true = label dtrain in
      case one_hot num_class y_true of
        Inl e \<Rightarrow> Inl e
      | Inr y_true \<Rightarrow>
     (case reshape y_pred num_class of
        Inl e \<Rightarrow> Inl e
      | Inr y_pred \<Rightarrow>
     (let p = map (map eval_p) y_pred in
      case broadcast2 (\<lambda>p t. eval_loss a g p t) p y_true of
        Inl e \<Rightarrow> Inl e
      | Inr loss \<Rightarrow> Inr (''focal_loss'', np_mean loss, False))))"

section \<open>Float64 arithmetic\<close>

text \<open>
  The same two functions with the rounding of float64 written out, for the properties
  that exact arithmetic does not decide. A value is a finite double, an infinity or
  \<open>nan\<close>. Every operation computes the exact result and rounds it to the nearest double,
  ties to even (53 bits of precision, exponents from \<open>-1022\<close> to \<open>1023\<close>, gradual
  underflow below \<open>2^-1022\<close>, overflow to an infinity from \<open>2^1024\<close> on); \<open>np.exp\<close>,
  \<open>np.log\<close> and \<open>**\<close> are taken to be correctly rounded as well. The sign of a zero is not
  kept: neither function divides by a zero.
\<close>

datatype f64 = Fin real | PInf | NInf | NaN

definition round_half_even :: "real \<Rightarrow> int" where
  "round_half_even z =
     (let f = \<lfloor>z\<rfloor>; r = z - of_int f
      in if r < 1 / 2 then f else if 1 / 2 < r then f + 1 else if even f then f else f + 1)"

definition round64 :: "real \<Rightarrow> f64" where
  "round64 x =
     (if x = 0 then Fin 0
      else
        let e = max \<lfloor>log 2 \<bar>x\<bar>\<rfloor> (- 1022);
            q = 2 powr of_int (e - 52);
            y = of_int (round_half_even (x / q)) * q
        in if 2 ^ 1024 \<le> y then PInf else if y \<le> - (2 ^ 1024) then NInf else Fin y)"


fun f64_add :: "f64 \<Rightarrow> f64 \<Rightarrow> f64" where
  "f64_add NaN _ = NaN"
| "f64_add _ NaN = NaN"
| "f64_add (Fin x) (Fin y) = round64 (x + y)"
| "f64_add PInf NInf = NaN"
| "f64_add NInf PInf = NaN"
| "f64_add PInf _ = PInf"
| "f64_add _ PInf = PInf"
| "f64_add NInf _ = NInf"
| "f64_add _ NInf = NInf"


definition inf_of_sign :: "bool \<Rightarrow> f64" where
  "inf_of_sign positive = (if positive then PInf else NInf)"

fun f64_mul :: "f64 \<Rightarrow> f64 \<Rightarrow> f64" where
  "f64_mul NaN _ = NaN"
| "f64_mul _ NaN = NaN"
| "f64_mul (Fin x) (Fin y) = round64 (x * y)"
| "f64_mul (Fin x) PInf = (if x = 0 then NaN else inf_of_sign (0 < x))"
| "f64_mul (Fin x) NInf = (if x = 0 then NaN else inf_of_sign (x < 0))"
| "f64_mul PInf (Fin y) = (if y = 0 then NaN else inf_of_sign (0 < y))"
| "f64_mul NInf (Fin y) = (if y = 0 then NaN else inf_of_sign (y < 0))"
| "f64_mul PInf PInf = PInf"
| "f64_mul PInf NInf = NInf"
| "f64_mul NInf PInf = NInf"
| "f64_mul NInf NInf = PInf"









section \<open>Auxiliary notions\<close>

text \<open>
  The array with \<open>n\<close> rows and \<open>c\<close> columns whose cell \<open>(i, j)\<close> is \<open>F i j\<close>: the form in
  which the proofs below carry every intermediate array of the two functions.
\<close>

definition tab :: "nat \<Rightarrow> nat \<Rightarrow> (nat \<Rightarrow> nat \<Rightarrow> 'a) \<Rightarrow> 'a list list" where
  "tab n c F = map (\<lambda>i. map (\<lambda>j. F i j) [0..<c]) [0..<n]"

text \<open>
  What \<open>derivative\<close> computes in one cell, for a cell function \<open>f\<close>, weights \<open>w\<close> and
  divisor \<open>d\<close>.
\<close>

definition diff_cell :: "(real \<Rightarrow> fval) \<Rightarrow> real \<Rightarrow> real list \<Rightarrow> real \<Rightarrow> real \<Rightarrow> fval" where
  "diff_cell f x w dx d =
     fdiv (fadd (fadd (map_option (\<lambda>v. 0 + v) (map_option (\<lambda>v. w ! 0 * v) (f (x + (0 - 1) * dx))))
                      (map_option (\<lambda>v. w ! 1 * v) (f (x + (1 - 1) * dx))))
                (map_option (\<lambda>v. w ! 2 * v) (f (x + (2 - 1) * dx)))) d"

section \<open>The sigmoid\<close>

lemma sigmoid_pos: "0 < sigmoid x"
  by (simp add: sigmoid_def add_pos_pos)

lemma sigmoid_less_one: "sigmoid x < 1"
  by (simp add: sigmoid_def add_pos_pos)



section \<open>Arrays in tabulated form\<close>

lemma map2_same: "map2 g (map f xs) (map h xs) = map (\<lambda>x. g (f x) (h x)) xs"
  by (induction xs) simp_all

lemma length_tab [simp]: "length (tab n c F) = n"
  by (simp add: tab_def)

lemma nth_tab [simp]: "i < n \<Longrightarrow> j < c \<Longrightarrow> tab n c F ! i ! j = F i j"
  by (simp add: tab_def)

lemma length_nth_tab [simp]: "i < n \<Longrightarrow> length (tab n c F ! i) = c"
  by (simp add: tab_def)

lemma map2_tab: "map2 (map2 f) (tab n c F) (tab n c G) = tab n c (\<lambda>i j. f (F i j) (G i j))"
  by (simp add: tab_def map2_same)

lemma map_tab: "map (map h) (tab n c F) = tab n c (\<lambda>i j. h (F i j))"
  by (simp add: tab_def)

lemma broadcast2_tab: "broadcast2 f (tab n c F) (tab n c G) = Inr (tab n c (\<lambda>i j. f (F i j) (G i j)))"
  by (simp add: broadcast2_def map2_tab)

lemma arr_shift_tab: "arr_shift (tab n c F) d = tab n c (\<lambda>i j. F i j + d)"
  by (simp add: arr_shift_def map_tab)

lemma arr_scale_tab: "arr_scale w (tab n c F) = tab n c (\<lambda>i j. map_option (\<lambda>v. w * v) (F i j))"
  by (simp add: arr_scale_def map_tab)

lemma scalar_add_tab: "scalar_add s (tab n c F) = tab n c (\<lambda>i j. map_option (\<lambda>v. s + v) (F i j))"
  by (simp add: scalar_add_def map_tab)

lemma arr_add_tab: "arr_add (tab n c F) (tab n c G) = tab n c (\<lambda>i j. fadd (F i j) (G i j))"
  by (simp add: arr_add_def map2_tab)

lemma arr_div_tab: "arr_div (tab n c F) d = tab n c (\<lambda>i j. fdiv (F i j) d)"
  by (simp add: arr_div_def map_tab)

lemma derivative_tab:
  assumes "central_weights k = Some w"
  shows "derivative (\<lambda>x. broadcast2 f x (tab n c G)) (tab n c F) k dx =
         Inr (tab n c (\<lambda>i j. diff_cell (\<lambda>x. f x (G i j)) (F i j) w dx (dx ^ k)))"
  by (simp add: derivative_def assms arr_shift_tab broadcast2_tab arr_scale_tab scalar_add_tab
      arr_add_tab arr_div_tab diff_cell_def)

lemma collect_Inr:
  "(\<And>x. x \<in> set xs \<Longrightarrow> g x = Inr (f x)) \<Longrightarrow> collect (map g xs) = Inr (map f xs)"
  by (induction xs) simp_all

lemma take_row_eye:
  assumes "0 \<le> k" "k < int c"
  shows "take_row (eye c) k = Inr (map (\<lambda>j. if nat k = j then 1 else 0) [0..<c])"
  using assms by (simp add: take_row_def eye_def Let_def)

lemma one_hot_tab:
  assumes "\<forall>r\<in>set ls. 0 \<le> astype_int r \<and> astype_int r < int c"
  shows "one_hot c ls = Inr (tab (length ls) c (\<lambda>i j. if nat (astype_int (ls ! i)) = j then 1 else 0))"
proof -
  have "one_hot c ls = Inr (map (\<lambda>r. map (\<lambda>j. if nat (astype_int r) = j then 1 else 0) [0..<c]) ls)"
    unfolding one_hot_def using assms by (intro collect_Inr) (simp add: take_row_eye)
  also have "map (\<lambda>r. map (\<lambda>j. if nat (astype_int r) = j then 1 else 0) [0..<c]) ls =
      tab (length ls) c (\<lambda>i j. if nat (astype_int (ls ! i)) = j then (1::real) else 0)"
    unfolding tab_def by (rule nth_equalityI) simp_all
  finally show ?thesis .
qed

lemma reshape_tab:
  assumes "0 < c" "length xs = n * c"
  shows "reshape xs c = Inr (tab n c (\<lambda>i j. xs ! (i * c + j)))"
proof -
  have "take c (drop (i * c) xs) = map (\<lambda>j. xs ! (i * c + j)) [0..<c]" if "i < n" for i
  proof -
    have "i * c + c \<le> n * c"
      using that by (metis Suc_leI mult_Suc mult_le_mono1 add.commute)
    then have "i * c \<le> length xs" "c \<le> length xs - i * c"
      unfolding assms(2) by linarith+
    then show ?thesis
      by (intro nth_equalityI) simp_all
  qed
  then show ?thesis
    using assms by (simp add: reshape_def tab_def)
qed

lemma nth_concat_blocks:
  assumes "\<forall>xs\<in>set xss. length xs = n" "j < length xss" "i < n"
  shows "concat xss ! (j * n + i) = xss ! j ! i"
  using assms
proof (induction xss arbitrary: j)
  case Nil
  then show ?case by simp
next
  case (Cons xs xss)
  show ?case
  proof (cases j)
    case 0
    then show ?thesis using Cons.prems by (simp add: nth_append)
  next
    case (Suc j')
    then show ?thesis using Cons.prems Cons.IH [of j'] by (simp add: nth_append)
  qed
qed

lemma length_flatten_F: "length (flatten_F c (tab n c F)) = n * c"
  by (simp add: flatten_F_def length_concat comp_def sum_list_triv)

lemma nth_flatten_F:
  assumes "i < n" "j < c"
  shows "flatten_F c (tab n c F) ! (j * n + i) = F i j"
proof -
  have "flatten_F c (tab n c F) ! (j * n + i) = map (\<lambda>j. map (\<lambda>row. row ! j) (tab n c F)) [0..<c] ! j ! i"
    unfolding flatten_F_def using assms by (intro nth_concat_blocks) simp_all
  then show ?thesis using assms by simp
qed

section \<open>The loss kernel on one-hot labels\<close>

lemma np_power_pos: "0 < b \<Longrightarrow> np_power b e = Some (b powr e)"
  by (simp add: np_power_def powr_def)

lemma sigmoid_unfold: "1 / (1 + exp (- x)) = sigmoid x"
  by (simp add: sigmoid_def)

lemma fl_label_one: "fl a g x 1 = Some (- a * (1 - sigmoid x) powr g * ln (sigmoid x))"
  using sigmoid_pos [of x] sigmoid_less_one [of x]
  by (simp add: fl_def Let_def sigmoid_unfold np_power_pos np_log_def)

lemma fl_label_zero: "fl a g x 0 = Some (- (1 - a) * sigmoid x powr g * ln (1 - sigmoid x))"
  using sigmoid_pos [of x] sigmoid_less_one [of x]
  by (simp add: fl_def Let_def sigmoid_unfold np_power_pos np_log_def)

lemma fl_one_hot: "t = 0 \<or> t = 1 \<Longrightarrow> fl a g x t = Some (spec_loss a g x t)"
  by (auto simp: fl_label_one fl_label_zero spec_loss_def spec_weight_def spec_modulation_def
      spec_cross_entropy_def Let_def)

text \<open>
  \<^bold>\<open>C1.\<close> For a raw score \<open>x\<close> and a label component \<open>t\<close> that is 0 or 1, \<open>fl\<close> returns
  \<open>-(alpha*t + (1-alpha)*(1-t)) * (1 - (t*p + (1-t)*(1-p)))^gamma * (t*log(p) + (1-t)*log(1-p))\<close>
  with \<open>p = 1/(1+exp(-x))\<close>, which is the loss of section 4.1 of the specification; on
  two arrays of the same shape it is applied to every cell on its own.
\<close>

theorem fl_formula:
  assumes "t = 0 \<or> t = 1"
  shows "fl alpha gamma x t =
           Some (let p = 1 / (1 + exp (- x)) in
                 - (alpha * t + (1 - alpha) * (1 - t)) * (1 - (t * p + (1 - t) * (1 - p))) powr gamma
                   * (t * ln p + (1 - t) * ln (1 - p)))
         \<and> fl alpha gamma x t = Some (spec_loss alpha gamma x t)
         \<and> broadcast2 (fl alpha gamma) (tab n c X) (tab n c T) =
             Inr (tab n c (\<lambda>i j. fl alpha gamma (X i j) (T i j)))"
  using assms fl_one_hot [of t alpha gamma x]
  by (auto simp: fl_label_one fl_label_zero Let_def sigmoid_unfold broadcast2_tab)

theorem fl_formula_witness:
  "((1::real) = 0 \<or> (1::real) = 1) \<and>
   fl (1 / 4) 2 0 1 = Some (- (1 / 4) * (1 - 1 / 2) powr 2 * ln (1 / 2))"
  using fl_formula [of 1 "1 / 4" 2 0] by (simp add: Let_def)

text \<open>
  \<^bold>\<open>C5.\<close> The expression that \<open>focal_loss_lgb_eval_error\<close> computes inline through its
  variables \<open>p\<close> and \<open>loss\<close> has the value of \<open>fl\<close> at the same \<open>x\<close>, \<open>t\<close>, \<open>alpha\<close>, \<open>gamma\<close>.
\<close>

theorem eval_loss_is_fl: "eval_loss a g (eval_p x) t = fl a g x t"
  by (simp add: eval_loss_def eval_p_def fl_def Let_def)

section \<open>Monotonicity of the loss\<close>





section \<open>The cross-entropy special case\<close>

lemma exp_lower_sum:
  assumes "0 \<le> (x::real)"
  shows "(\<Sum>m<n. x ^ m / fact m) \<le> exp x"
proof -
  obtain t where "exp x = (\<Sum>m<n. x ^ m / fact m) + (exp t / fact n) * x ^ n"
    using Maclaurin_exp_le [of x n] by blast
  moreover have "0 \<le> (exp t / fact n) * x ^ n"
    using assms by simp
  ultimately show ?thesis by linarith
qed

lemma exp_upper_sum:
  assumes "0 \<le> (x::real)" "x \<le> 1"
  shows "exp x \<le> (\<Sum>m<n. x ^ m / fact m) + 3 * x ^ n / fact n"
proof -
  obtain t where t: "\<bar>t\<bar> \<le> \<bar>x\<bar>" "exp x = (\<Sum>m<n. x ^ m / fact m) + (exp t / fact n) * x ^ n"
    using Maclaurin_exp_le [of x n] by blast
  have "exp t \<le> exp 1"
    using t(1) assms by simp
  then have "exp t \<le> 3"
    using exp_le by linarith
  then have "exp t * (x ^ n / fact n) \<le> 3 * (x ^ n / fact n)"
    using assms(1) by (intro mult_right_mono) auto
  then show ?thesis using t(2) by simp
qed

lemma ln2_lower: "6931 / 10000 < ln (2::real)"
proof -
  have "exp (6931 / 10000 :: real) \<le> (\<Sum>m<7. (6931 / 10000) ^ m / fact m) + 3 * (6931 / 10000) ^ 7 / fact 7"
    by (rule exp_upper_sum) simp_all
  also have "\<dots> < 2"
    by (simp add: eval_nat_numeral)
  finally have "exp (6931 / 10000 :: real) < exp (ln 2)"
    by simp
  then show ?thesis by (simp only: exp_less_cancel_iff)
qed

lemma ln2_upper: "ln (2::real) < 6933 / 10000"
proof -
  have "(2::real) < (\<Sum>m<7. (6933 / 10000) ^ m / fact m)"
    by (simp add: eval_nat_numeral)
  also have "\<dots> \<le> exp (6933 / 10000)"
    by (rule exp_lower_sum) simp
  finally have "exp (ln 2) < exp (6933 / 10000 :: real)"
    by simp
  then show ?thesis by (simp only: exp_less_cancel_iff)
qed

text \<open>
  \<^bold>\<open>C6.\<close> With \<open>gamma = 0\<close> and \<open>alpha = 0.5\<close> the loss is half the binary cross-entropy
  with logits, for every \<open>x\<close> and \<open>t\<close>; at \<open>x = 0\<close>, \<open>t = 1\<close> it is \<open>0.5 * ln 2\<close>, which is
  0.3466 to within \<open>10\<^sup>-\<^sup>4\<close>.
\<close>

theorem fl_gamma0_alpha_half:
  "fl (1 / 2) 0 x t = Some (1 / 2 * - (t * ln (sigmoid x) + (1 - t) * ln (1 - sigmoid x))) \<and>
   sigmoid 0 = 1 / 2 \<and>
   fl (1 / 2) 0 0 1 = Some (1 / 2 * ln 2) \<and>
   \<bar>1 / 2 * ln 2 - 3466 / 10000\<bar> < (1::real) / 10000"
proof -
  have a: "fl (1 / 2) 0 x t = Some (1 / 2 * - (t * ln (sigmoid x) + (1 - t) * ln (1 - sigmoid x)))"
  proof -
    have gen: "fl a 0 x t =
        Some (- (a * t + (1 - a) * (1 - t)) * 1 * (t * ln (sigmoid x) + (1 - t) * ln (1 - sigmoid x)))" for a
      using sigmoid_pos [of x] sigmoid_less_one [of x]
      by (simp add: fl_def Let_def sigmoid_unfold np_power_def np_log_def)
    have w: "- (1 / 2 * t + (1 - 1 / 2) * (1 - t)) * 1 * E = 1 / 2 * - E" for E :: real
      by (simp add: algebra_simps)
    show ?thesis
      by (simp only: gen w)
  qed
  have b: "sigmoid 0 = 1 / 2"
    by (simp add: sigmoid_def)
  have c: "fl (1 / 2) 0 0 1 = Some (1 / 2 * ln 2)"
    by (simp add: fl_label_one b ln_div)
  have d: "\<bar>1 / 2 * ln 2 - 3466 / 10000\<bar> < (1::real) / 10000"
    using ln2_lower ln2_upper by linarith
  show ?thesis using a b c d by blast
qed

section \<open>The objective in tabulated form\<close>

lemma tab_single: "tab (Suc 0) (Suc 0) F = [[F 0 0]]"
  by (simp add: tab_def)

lemma derivative_single:
  assumes "central_weights k = Some w"
  shows "derivative (\<lambda>x. broadcast2 f x [[t]]) [[x]] k dx = Inr [[diff_cell (\<lambda>x. f x t) x w dx (dx ^ k)]]"
  using derivative_tab [OF assms, of f "Suc 0" "Suc 0" "\<lambda>_ _. t" "\<lambda>_ _. x" dx]
  by (simp add: tab_single)

lemma diff_cell_grad:
  assumes "f (x - dx) = Some fm" "f x = Some f0" "f (x + dx) = Some fp" "dx \<noteq> 0"
  shows "diff_cell f x [- 1 / 2, 0 / 2, 1 / 2] dx (dx ^ 1) = Some ((fp - fm) / (2 * dx))"
  using assms by (simp add: diff_cell_def fadd_def fdiv_def field_simps)

lemma diff_cell_hess:
  assumes "f (x - dx) = Some fm" "f x = Some f0" "f (x + dx) = Some fp" "dx \<noteq> 0"
  shows "diff_cell f x [1, - 2, 1] dx (dx ^ 2) = Some ((fp - 2 * f0 + fm) / dx\<^sup>2)"
  using assms by (simp add: diff_cell_def fadd_def fdiv_def field_simps)

lemma central_weights_1: "central_weights 1 = Some [- 1 / 2, 0 / 2, 1 / 2]"
  by (simp add: central_weights_def)

lemma central_weights_2: "central_weights 2 = Some [1, - 2, 1]"
  by (simp add: central_weights_def)

lemma focal_loss_lgb_tab:
  assumes "\<forall>r\<in>set (label dtrain). 0 \<le> astype_int r \<and> astype_int r < int c"
    and "0 < c" and "length y_pred = length (label dtrain) * c"
  shows "focal_loss_lgb y_pred dtrain alpha gamma c =
     Inr (flatten_F c (tab (length (label dtrain)) c
            (\<lambda>i j. diff_cell (\<lambda>x. fl alpha gamma x (if nat (astype_int (label dtrain ! i)) = j then 1 else 0))
                     (y_pred ! (i * c + j)) [- 1 / 2, 0 / 2, 1 / 2] dx_step (dx_step ^ 1))),
          flatten_F c (tab (length (label dtrain)) c
            (\<lambda>i j. diff_cell (\<lambda>x. fl alpha gamma x (if nat (astype_int (label dtrain ! i)) = j then 1 else 0))
                     (y_pred ! (i * c + j)) [1, - 2, 1] dx_step (dx_step ^ 2))))"
  unfolding focal_loss_lgb_def Let_def one_hot_tab [OF assms(1)] reshape_tab [OF assms(2) assms(3)]
    sum.case derivative_tab [OF central_weights_1] derivative_tab [OF central_weights_2]
  by (rule refl)

section \<open>One-hot expansion\<close>

lemma sum_list_unit_row:
  assumes "k < c"
  shows "sum_list (map (\<lambda>j. if k = j then 1 else 0) [0..<c]) = (1::real)"
  using assms by (simp add: interv_sum_list_conv_sum_set_nat)

lemma card_unit_row:
  assumes "k < c"
  shows "card {j. j < c \<and> (if k = j then 1 else 0) = (1::real)} = 1"
proof -
  have "{j. j < c \<and> (if k = j then 1 else 0) = (1::real)} = {k}"
    using assms by (auto split: if_splits)
  then show ?thesis by simp
qed

text \<open>
  \<^bold>\<open>C9.\<close> When every label, truncated to an integer, lies in \<open>[0, C)\<close>, the one-hot
  expansion \<open>np.eye(num_class)[y_true.astype('int')]\<close> that both functions compute has one
  row of \<open>C\<close> entries per label; the entry at the truncated label is 1, every other entry
  is 0, exactly one entry of the row is 1, and the row sums to 1.
\<close>

theorem one_hot_rows:
  assumes "\<forall>r\<in>set labels. 0 \<le> astype_int r \<and> astype_int r < int C"
  shows "\<exists>T. one_hot C labels = Inr T \<and> length T = length labels \<and>
           (\<forall>i<length labels.
              length (T ! i) = C \<and>
              (\<forall>j<C. T ! i ! j = (if nat (astype_int (labels ! i)) = j then 1 else 0)) \<and>
              card {j. j < C \<and> T ! i ! j = 1} = 1 \<and>
              sum_list (T ! i) = 1)"
proof -
  let ?T = "tab (length labels) C (\<lambda>i j. if nat (astype_int (labels ! i)) = j then (1::real) else 0)"
  have "one_hot C labels = Inr ?T"
    using assms by (rule one_hot_tab)
  moreover have "length ?T = length labels"
    by simp
  moreover have "length (?T ! i) = C \<and>
      (\<forall>j<C. ?T ! i ! j = (if nat (astype_int (labels ! i)) = j then 1 else 0)) \<and>
      card {j. j < C \<and> ?T ! i ! j = 1} = 1 \<and> sum_list (?T ! i) = 1" if i: "i < length labels" for i
  proof -
    have k: "nat (astype_int (labels ! i)) < C"
      using assms i by (auto simp: nat_less_iff)
    have "{j. j < C \<and> ?T ! i ! j = 1} = {j. j < C \<and> (if nat (astype_int (labels ! i)) = j then 1 else 0) = (1::real)}"
      using i by (auto split: if_splits)
    then have "card {j. j < C \<and> ?T ! i ! j = 1} = 1"
      using card_unit_row [OF k] by simp
    moreover have "sum_list (?T ! i) = 1"
      using i sum_list_unit_row [OF k] by (simp add: tab_def)
    ultimately show ?thesis using i by simp
  qed
  ultimately show ?thesis by blast
qed

theorem one_hot_rows_witness:
  "0 \<le> astype_int 2 \<and> astype_int 2 < int 3 \<and> 0 \<le> astype_int 0 \<and> astype_int 0 < int 3 \<and>
   0 \<le> astype_int (17 / 10) \<and> astype_int (17 / 10) < int 3 \<and>
   (\<exists>T. one_hot 3 [2, 0, 17 / 10] = Inr T \<and> length T = 3 \<and> T ! 2 ! 1 = 1 \<and> T ! 2 ! 0 = 0 \<and>
        sum_list (T ! 2) = 1)"
proof -
  have h: "\<forall>r\<in>set [2, 0, 17 / 10]. 0 \<le> astype_int r \<and> astype_int r < int 3"
    by (simp add: astype_int_def)
  from one_hot_rows [OF h] obtain T where T: "one_hot 3 [2, 0, 17 / 10] = Inr T"
    "length T = length [2::real, 0, 17 / 10]"
    "\<forall>i<length [2::real, 0, 17 / 10].
              length (T ! i) = 3 \<and>
              (\<forall>j<3. T ! i ! j = (if nat (astype_int ([2, 0, 17 / 10] ! i)) = j then 1 else 0)) \<and>
              card {j. j < 3 \<and> T ! i ! j = 1} = 1 \<and>
              sum_list (T ! i) = 1"
    by blast
  from T(3) have "T ! 2 ! 1 = 1" "T ! 2 ! 0 = 0" "sum_list (T ! 2) = 1"
    by (simp_all add: astype_int_def)
  then show ?thesis using h T(1,2) by simp
qed

section \<open>Layout of the returned arrays\<close>

text \<open>
  \<^bold>\<open>C2.\<close> For raw scores of shape \<open>(N, C)\<close> and \<open>N\<close> valid labels, \<open>focal_loss_lgb\<close> returns a
  gradient and a Hessian of \<open>N * C\<close> elements each, in column-major order: element
  \<open>j * N + i\<close> is the value of row (observation) \<open>i\<close> and column (class) \<open>j\<close> of the array that
  \<open>derivative\<close> returned, so all values of class 0 come first, then those of class 1, and
  so on.
\<close>

theorem focal_loss_lgb_layout:
  assumes "\<forall>r\<in>set (label dtrain). 0 \<le> astype_int r \<and> astype_int r < int C"
    and "0 < C" and "length (label dtrain) = N" and "length y_pred = N * C"
  shows "\<exists>T X G H grad hess.
           one_hot C (label dtrain) = Inr T \<and> reshape y_pred C = Inr X \<and> length X = N \<and>
           derivative (\<lambda>x. broadcast2 (fl alpha gamma) x T) X 1 dx_step = Inr G \<and>
           derivative (\<lambda>x. broadcast2 (fl alpha gamma) x T) X 2 dx_step = Inr H \<and>
           focal_loss_lgb y_pred dtrain alpha gamma C = Inr (grad, hess) \<and>
           length grad = N * C \<and> length hess = N * C \<and>
           (\<forall>i<N. \<forall>j<C. X ! i ! j = y_pred ! (i * C + j) \<and>
                          grad ! (j * N + i) = G ! i ! j \<and> hess ! (j * N + i) = H ! i ! j)"
proof -
  let ?t = "\<lambda>i j. if nat (astype_int (label dtrain ! i)) = j then (1::real) else 0"
  let ?T = "tab N C ?t"
  let ?X = "tab N C (\<lambda>i j. y_pred ! (i * C + j))"
  let ?G = "tab N C (\<lambda>i j. diff_cell (\<lambda>x. fl alpha gamma x (?t i j)) (y_pred ! (i * C + j))
              [- 1 / 2, 0 / 2, 1 / 2] dx_step (dx_step ^ 1))"
  let ?H = "tab N C (\<lambda>i j. diff_cell (\<lambda>x. fl alpha gamma x (?t i j)) (y_pred ! (i * C + j))
              [1, - 2, 1] dx_step (dx_step ^ 2))"
  have len: "length y_pred = length (label dtrain) * C"
    using assms(3,4) by simp
  have T: "one_hot C (label dtrain) = Inr ?T"
    using one_hot_tab [OF assms(1)] assms(3) by simp
  have X: "reshape y_pred C = Inr ?X"
    using assms(2,4) by (rule reshape_tab)
  have G: "derivative (\<lambda>x. broadcast2 (fl alpha gamma) x ?T) ?X 1 dx_step = Inr ?G"
    by (rule derivative_tab [OF central_weights_1])
  have H: "derivative (\<lambda>x. broadcast2 (fl alpha gamma) x ?T) ?X 2 dx_step = Inr ?H"
    by (rule derivative_tab [OF central_weights_2])
  have F: "focal_loss_lgb y_pred dtrain alpha gamma C = Inr (flatten_F C ?G, flatten_F C ?H)"
    using focal_loss_lgb_tab [OF assms(1,2) len] assms(3) by simp
  have "length (flatten_F C ?G) = N * C" "length (flatten_F C ?H) = N * C"
    by (rule length_flatten_F)+
  moreover have "\<forall>i<N. \<forall>j<C. ?X ! i ! j = y_pred ! (i * C + j) \<and>
      flatten_F C ?G ! (j * N + i) = ?G ! i ! j \<and> flatten_F C ?H ! (j * N + i) = ?H ! i ! j"
    by (simp add: nth_flatten_F)
  moreover have "length ?X = N"
    by simp
  ultimately show ?thesis
    using T X G H F by blast
qed

theorem focal_loss_lgb_layout_witness:
  "0 \<le> astype_int 0 \<and> astype_int 0 < int 2 \<and> 0 \<le> astype_int 1 \<and> astype_int 1 < int 2 \<and>
   (0::nat) < 2 \<and> length [0::real, 1] = 2 \<and> length [0::real, 1, 2, 3] = 2 * 2 \<and>
   (\<exists>T X G H grad hess.
      one_hot 2 [0, 1] = Inr T \<and> reshape [0, 1, 2, 3] 2 = Inr X \<and> length X = 2 \<and>
      derivative (\<lambda>x. broadcast2 (fl (1 / 4) 2) x T) X 1 dx_step = Inr G \<and>
      derivative (\<lambda>x. broadcast2 (fl (1 / 4) 2) x T) X 2 dx_step = Inr H \<and>
      focal_loss_lgb [0, 1, 2, 3] \<lparr>label = [0, 1]\<rparr> (1 / 4) 2 2 = Inr (grad, hess) \<and>
      length grad = 4 \<and> length hess = 4 \<and>
      X ! 0 ! 1 = 1 \<and> X ! 1 ! 0 = 2 \<and>
      grad ! 0 = G ! 0 ! 0 \<and> grad ! 1 = G ! 1 ! 0 \<and> grad ! 2 = G ! 0 ! 1 \<and> grad ! 3 = G ! 1 ! 1 \<and>
      hess ! 0 = H ! 0 ! 0 \<and> hess ! 1 = H ! 1 ! 0 \<and> hess ! 2 = H ! 0 ! 1 \<and> hess ! 3 = H ! 1 ! 1)"
proof -
  have h1: "\<forall>r\<in>set (label \<lparr>label = [0, 1]\<rparr>). 0 \<le> astype_int r \<and> astype_int r < int 2"
    by (simp add: astype_int_def)
  have h2: "(0::nat) < 2"
    by simp
  have h3: "length (label \<lparr>label = [0::real, 1]\<rparr>) = 2"
    by simp
  have h4: "length [0::real, 1, 2, 3] = 2 * 2"
    by simp
  obtain T X G H grad hess where r:
    "one_hot 2 (label \<lparr>label = [0, 1]\<rparr>) = Inr T" "reshape [0::real, 1, 2, 3] 2 = Inr X" "length X = 2"
    "derivative (\<lambda>x. broadcast2 (fl (1 / 4) 2) x T) X 1 dx_step = Inr G"
    "derivative (\<lambda>x. broadcast2 (fl (1 / 4) 2) x T) X 2 dx_step = Inr H"
    "focal_loss_lgb [0, 1, 2, 3] \<lparr>label = [0, 1]\<rparr> (1 / 4) 2 2 = Inr (grad, hess)"
    "length grad = 2 * 2" "length hess = 2 * 2"
    "\<forall>i<2. \<forall>j<2. X ! i ! j = [0::real, 1, 2, 3] ! (i * 2 + j) \<and>
        grad ! (j * 2 + i) = G ! i ! j \<and> hess ! (j * 2 + i) = H ! i ! j"
    using focal_loss_lgb_layout [OF h1 h2 h3 h4, of "1 / 4" 2] by blast
  have c00: "X ! 0 ! 0 = [0::real, 1, 2, 3] ! (0 * 2 + 0) \<and> grad ! (0 * 2 + 0) = G ! 0 ! 0 \<and> hess ! (0 * 2 + 0) = H ! 0 ! 0"
    using r(9) [rule_format, of 0 0] by simp
  have c01: "X ! 0 ! 1 = [0::real, 1, 2, 3] ! (0 * 2 + 1) \<and> grad ! (1 * 2 + 0) = G ! 0 ! 1 \<and> hess ! (1 * 2 + 0) = H ! 0 ! 1"
    using r(9) [rule_format, of 0 1] by simp
  have c10: "X ! 1 ! 0 = [0::real, 1, 2, 3] ! (1 * 2 + 0) \<and> grad ! (0 * 2 + 1) = G ! 1 ! 0 \<and> hess ! (0 * 2 + 1) = H ! 1 ! 0"
    using r(9) [rule_format, of 1 0] by simp
  have c11: "X ! 1 ! 1 = [0::real, 1, 2, 3] ! (1 * 2 + 1) \<and> grad ! (1 * 2 + 1) = G ! 1 ! 1 \<and> hess ! (1 * 2 + 1) = H ! 1 ! 1"
    using r(9) [rule_format, of 1 1] by simp
  have "one_hot 2 [0, 1] = Inr T \<and> reshape [0, 1, 2, 3] 2 = Inr X \<and> length X = 2 \<and>
      derivative (\<lambda>x. broadcast2 (fl (1 / 4) 2) x T) X 1 dx_step = Inr G \<and>
      derivative (\<lambda>x. broadcast2 (fl (1 / 4) 2) x T) X 2 dx_step = Inr H \<and>
      focal_loss_lgb [0, 1, 2, 3] \<lparr>label = [0, 1]\<rparr> (1 / 4) 2 2 = Inr (grad, hess) \<and>
      length grad = 4 \<and> length hess = 4 \<and>
      X ! 0 ! 1 = 1 \<and> X ! 1 ! 0 = 2 \<and>
      grad ! 0 = G ! 0 ! 0 \<and> grad ! 1 = G ! 1 ! 0 \<and> grad ! 2 = G ! 0 ! 1 \<and> grad ! 3 = G ! 1 ! 1 \<and>
      hess ! 0 = H ! 0 ! 0 \<and> hess ! 1 = H ! 1 ! 0 \<and> hess ! 2 = H ! 0 ! 1 \<and> hess ! 3 = H ! 1 ! 1"
    using r(1-8) c00 c01 c10 c11 by simp
  then show ?thesis
    using h1 by (simp only: simp_thms h2 h4) (auto simp: astype_int_def)
qed

section \<open>Finite differences\<close>

lemma dx_step_nonzero: "dx_step \<noteq> 0"
  by (simp add: dx_step_def)

lemma fl_one_hot_ex:
  assumes "t = 0 \<or> t = 1"
  shows "\<exists>v. fl a g x t = Some v"
  using fl_one_hot [OF assms] by blast

text \<open>
  \<^bold>\<open>C3.\<close> For the cell of observation \<open>i\<close> and class \<open>j\<close>, with \<open>f\<close> the loss \<open>fl\<close> at the
  label component of that cell and \<open>x\<close> the raw score of that cell, the returned gradient
  is \<open>(f(x+dx) - f(x-dx)) / (2*dx)\<close> and the returned Hessian is
  \<open>(f(x+dx) - 2*f(x) + f(x-dx)) / dx^2\<close>, with \<open>dx = 1e-6\<close>.
\<close>

theorem focal_loss_lgb_central_differences:
  assumes "\<forall>r\<in>set (label dtrain). 0 \<le> astype_int r \<and> astype_int r < int C"
    and "length (label dtrain) = N" and "length y_pred = N * C"
    and "i < N" and "j < C"
  shows "\<exists>grad hess fm f0 fp.
           focal_loss_lgb y_pred dtrain alpha gamma C = Inr (grad, hess) \<and>
           fl alpha gamma (y_pred ! (i * C + j) - dx_step)
              (if nat (astype_int (label dtrain ! i)) = j then 1 else 0) = Some fm \<and>
           fl alpha gamma (y_pred ! (i * C + j))
              (if nat (astype_int (label dtrain ! i)) = j then 1 else 0) = Some f0 \<and>
           fl alpha gamma (y_pred ! (i * C + j) + dx_step)
              (if nat (astype_int (label dtrain ! i)) = j then 1 else 0) = Some fp \<and>
           dx_step = 1 / 10 ^ 6 \<and>
           grad ! (j * N + i) = Some ((fp - fm) / (2 * dx_step)) \<and>
           hess ! (j * N + i) = Some ((fp - 2 * f0 + fm) / dx_step\<^sup>2)"
proof -
  let ?t = "if nat (astype_int (label dtrain ! i)) = j then (1::real) else 0"
  let ?x = "y_pred ! (i * C + j)"
  have C: "0 < C"
    using assms(5) by simp
  have len: "length y_pred = length (label dtrain) * C"
    using assms(2,3) by simp
  have t: "?t = 0 \<or> ?t = 1"
    by simp
  obtain fm where fm: "fl alpha gamma (?x - dx_step) ?t = Some fm"
    using fl_one_hot_ex [OF t] by blast
  obtain f0 where f0: "fl alpha gamma ?x ?t = Some f0"
    using fl_one_hot_ex [OF t] by blast
  obtain fp where fp: "fl alpha gamma (?x + dx_step) ?t = Some fp"
    using fl_one_hot_ex [OF t] by blast
  let ?G = "tab N C (\<lambda>i j. diff_cell (\<lambda>x. fl alpha gamma x (if nat (astype_int (label dtrain ! i)) = j then 1 else 0))
              (y_pred ! (i * C + j)) [- 1 / 2, 0 / 2, 1 / 2] dx_step (dx_step ^ 1))"
  let ?H = "tab N C (\<lambda>i j. diff_cell (\<lambda>x. fl alpha gamma x (if nat (astype_int (label dtrain ! i)) = j then 1 else 0))
              (y_pred ! (i * C + j)) [1, - 2, 1] dx_step (dx_step ^ 2))"
  have F: "focal_loss_lgb y_pred dtrain alpha gamma C = Inr (flatten_F C ?G, flatten_F C ?H)"
    using focal_loss_lgb_tab [OF assms(1) C len] assms(2) by simp
  have "flatten_F C ?G ! (j * N + i) =
      diff_cell (\<lambda>x. fl alpha gamma x ?t) ?x [- 1 / 2, 0 / 2, 1 / 2] dx_step (dx_step ^ 1)"
    using assms(4,5) by (rule nth_flatten_F)
  also have "\<dots> = Some ((fp - fm) / (2 * dx_step))"
    using fm f0 fp dx_step_nonzero by (rule diff_cell_grad)
  finally have g: "flatten_F C ?G ! (j * N + i) = Some ((fp - fm) / (2 * dx_step))" .
  have "flatten_F C ?H ! (j * N + i) =
      diff_cell (\<lambda>x. fl alpha gamma x ?t) ?x [1, - 2, 1] dx_step (dx_step ^ 2)"
    using assms(4,5) by (rule nth_flatten_F)
  also have "\<dots> = Some ((fp - 2 * f0 + fm) / dx_step\<^sup>2)"
    using fm f0 fp dx_step_nonzero by (rule diff_cell_hess)
  finally have h: "flatten_F C ?H ! (j * N + i) = Some ((fp - 2 * f0 + fm) / dx_step\<^sup>2)" .
  show ?thesis
    using F fm f0 fp g h dx_step_def by blast
qed

theorem focal_loss_lgb_central_differences_witness:
  "0 \<le> astype_int 0 \<and> astype_int 0 < int 3 \<and> length [0::real] = 1 \<and>
   length [2::real, - 1, - 1] = 1 * 3 \<and> (0::nat) < 1 \<and> (1::nat) < 3 \<and>
   (\<exists>grad hess fm f0 fp.
      focal_loss_lgb [2, - 1, - 1] \<lparr>label = [0]\<rparr> (1 / 4) 2 3 = Inr (grad, hess) \<and>
      fl (1 / 4) 2 (- 1 - dx_step) 0 = Some fm \<and>
      fl (1 / 4) 2 (- 1) 0 = Some f0 \<and>
      fl (1 / 4) 2 (- 1 + dx_step) 0 = Some fp \<and>
      dx_step = 1 / 10 ^ 6 \<and>
      grad ! 1 = Some ((fp - fm) / (2 * dx_step)) \<and>
      hess ! 1 = Some ((fp - 2 * f0 + fm) / dx_step\<^sup>2))"
proof -
  have h1: "\<forall>r\<in>set (label \<lparr>label = [0]\<rparr>). 0 \<le> astype_int r \<and> astype_int r < int 3"
    by (simp add: astype_int_def)
  have h2: "length (label \<lparr>label = [0::real]\<rparr>) = 1"
    by simp
  have h3: "length [2::real, - 1, - 1] = 1 * 3"
    by simp
  have h4: "(0::nat) < 1" and h5: "(1::nat) < 3"
    by simp_all
  have a: "astype_int 0 = 0"
    by (simp add: astype_int_def)
  show ?thesis
    using focal_loss_lgb_central_differences [OF h1 h2 h3 h4 h5, of "1 / 4" 2]
    by (simp add: a)
qed

section \<open>Input order against output order\<close>

text \<open>
  \<^bold>\<open>C10.\<close> For a flat prediction vector of \<open>N * C\<close> elements with \<open>N > 1\<close> and \<open>C > 1\<close>, input
  element \<open>k\<close> is differentiated against the label of observation \<open>k div C\<close> at class
  \<open>k mod C\<close>, and the result is output element \<open>(k mod C) * N + k div C\<close>; some element
  changes its position, so the output order is not the order assumed for the input.
\<close>

theorem focal_loss_lgb_orderings:
  assumes "\<forall>r\<in>set (label dtrain). 0 \<le> astype_int r \<and> astype_int r < int C"
    and "length (label dtrain) = N" and "length y_pred = N * C"
    and "1 < N" and "1 < C"
  shows "\<exists>grad hess.
           focal_loss_lgb y_pred dtrain alpha gamma C = Inr (grad, hess) \<and>
           (\<forall>k<N * C.
              derivative (\<lambda>x. broadcast2 (fl alpha gamma) x
                  [[if nat (astype_int (label dtrain ! (k div C))) = k mod C then 1 else 0]])
                [[y_pred ! k]] 1 dx_step = Inr [[grad ! (k mod C * N + k div C)]] \<and>
              derivative (\<lambda>x. broadcast2 (fl alpha gamma) x
                  [[if nat (astype_int (label dtrain ! (k div C))) = k mod C then 1 else 0]])
                [[y_pred ! k]] 2 dx_step = Inr [[hess ! (k mod C * N + k div C)]]) \<and>
           (\<exists>k<N * C. k mod C * N + k div C \<noteq> k)"
proof -
  let ?G = "tab N C (\<lambda>i j. diff_cell (\<lambda>x. fl alpha gamma x (if nat (astype_int (label dtrain ! i)) = j then 1 else 0))
              (y_pred ! (i * C + j)) [- 1 / 2, 0 / 2, 1 / 2] dx_step (dx_step ^ 1))"
  let ?H = "tab N C (\<lambda>i j. diff_cell (\<lambda>x. fl alpha gamma x (if nat (astype_int (label dtrain ! i)) = j then 1 else 0))
              (y_pred ! (i * C + j)) [1, - 2, 1] dx_step (dx_step ^ 2))"
  have C: "0 < C"
    using assms(5) by simp
  have len: "length y_pred = length (label dtrain) * C"
    using assms(2,3) by simp
  have F: "focal_loss_lgb y_pred dtrain alpha gamma C = Inr (flatten_F C ?G, flatten_F C ?H)"
    using focal_loss_lgb_tab [OF assms(1) C len] assms(2) by simp
  have cells: "derivative (\<lambda>x. broadcast2 (fl alpha gamma) x
                  [[if nat (astype_int (label dtrain ! (k div C))) = k mod C then 1 else 0]])
                [[y_pred ! k]] 1 dx_step = Inr [[flatten_F C ?G ! (k mod C * N + k div C)]] \<and>
              derivative (\<lambda>x. broadcast2 (fl alpha gamma) x
                  [[if nat (astype_int (label dtrain ! (k div C))) = k mod C then 1 else 0]])
                [[y_pred ! k]] 2 dx_step = Inr [[flatten_F C ?H ! (k mod C * N + k div C)]]"
    if k: "k < N * C" for k
  proof -
    have i: "k div C < N"
      using k C by (simp add: less_mult_imp_div_less)
    have j: "k mod C < C"
      using C by simp
    have kk: "k div C * C + k mod C = k"
      by simp
    show ?thesis
      unfolding derivative_single [OF central_weights_1] derivative_single [OF central_weights_2]
        nth_flatten_F [OF i j] kk
      by simp
  qed
  have "1 < N * C"
    using assms(4,5) by (metis C less_1_mult mult.commute)
  moreover have "1 mod C * N + 1 div C \<noteq> 1"
    using assms(4,5) by simp
  ultimately have "\<exists>k<N * C. k mod C * N + k div C \<noteq> k"
    by blast
  then show ?thesis
    using F cells by blast
qed

theorem focal_loss_lgb_orderings_witness:
  "0 \<le> astype_int 0 \<and> astype_int 0 < int 2 \<and> 0 \<le> astype_int 1 \<and> astype_int 1 < int 2 \<and>
   length [0::real, 1] = 2 \<and> length [5::real, 6, 7, 8] = 2 * 2 \<and> (1::nat) < 2 \<and>
   (\<exists>grad hess.
      focal_loss_lgb [5, 6, 7, 8] \<lparr>label = [0, 1]\<rparr> (1 / 4) 2 2 = Inr (grad, hess) \<and>
      derivative (\<lambda>x. broadcast2 (fl (1 / 4) 2) x [[0]]) [[6]] 1 dx_step = Inr [[grad ! 2]] \<and>
      derivative (\<lambda>x. broadcast2 (fl (1 / 4) 2) x [[0]]) [[6]] 2 dx_step = Inr [[hess ! 2]] \<and>
      derivative (\<lambda>x. broadcast2 (fl (1 / 4) 2) x [[0]]) [[7]] 1 dx_step = Inr [[grad ! 1]] \<and>
      derivative (\<lambda>x. broadcast2 (fl (1 / 4) 2) x [[0]]) [[7]] 2 dx_step = Inr [[hess ! 1]])"
proof -
  have h1: "\<forall>r\<in>set (label \<lparr>label = [0, 1]\<rparr>). 0 \<le> astype_int r \<and> astype_int r < int 2"
    by (simp add: astype_int_def)
  have h2: "length (label \<lparr>label = [0::real, 1]\<rparr>) = 2"
    by simp
  have h3: "length [5::real, 6, 7, 8] = 2 * 2"
    by simp
  have h4: "(1::nat) < 2"
    by simp
  have a: "astype_int 0 = 0" "astype_int 1 = 1"
    by (simp_all add: astype_int_def)
  obtain grad hess where r:
    "focal_loss_lgb [5, 6, 7, 8] \<lparr>label = [0, 1]\<rparr> (1 / 4) 2 2 = Inr (grad, hess)"
    "\<forall>k<2 * 2.
        derivative (\<lambda>x. broadcast2 (fl (1 / 4) 2) x
            [[if nat (astype_int (label \<lparr>label = [0, 1]\<rparr> ! (k div 2))) = k mod 2 then 1 else 0]])
          [[[5, 6, 7, 8] ! k]] 1 dx_step = Inr [[grad ! (k mod 2 * 2 + k div 2)]] \<and>
        derivative (\<lambda>x. broadcast2 (fl (1 / 4) 2) x
            [[if nat (astype_int (label \<lparr>label = [0, 1]\<rparr> ! (k div 2))) = k mod 2 then 1 else 0]])
          [[[5, 6, 7, 8] ! k]] 2 dx_step = Inr [[hess ! (k mod 2 * 2 + k div 2)]]"
    using focal_loss_lgb_orderings [OF h1 h2 h3 h4 h4, of "1 / 4" 2] by blast
  have k1: "derivative (\<lambda>x. broadcast2 (fl (1 / 4) 2) x [[0]]) [[6]] 1 dx_step = Inr [[grad ! 2]] \<and>
      derivative (\<lambda>x. broadcast2 (fl (1 / 4) 2) x [[0]]) [[6]] 2 dx_step = Inr [[hess ! 2]]"
    using r(2) [rule_format, of 1] by (simp add: a)
  have k2: "derivative (\<lambda>x. broadcast2 (fl (1 / 4) 2) x [[0]]) [[7]] 1 dx_step = Inr [[grad ! 1]] \<and>
      derivative (\<lambda>x. broadcast2 (fl (1 / 4) 2) x [[0]]) [[7]] 2 dx_step = Inr [[hess ! 1]]"
    using r(2) [rule_format, of 2] by (simp add: a)
  show ?thesis
    using r(1) k1 k2 by (auto simp: a)
qed

section \<open>The evaluation metric\<close>

lemma eval_loss_fl: "eval_loss a g (eval_p x) t = fl a g x t"
  by (simp add: eval_loss_def eval_p_def fl_def Let_def)

lemma fsum_Some: "fsum (map Some vs) = Some (sum_list vs)"
  by (induction vs) (simp_all add: fadd_def)

lemma concat_tab_Some: "concat (tab n c (\<lambda>i j. Some (L i j))) = map Some (concat (tab n c L))"
  by (simp add: tab_def map_concat comp_def)

lemma length_concat_tab: "length (concat (tab n c F)) = n * c"
  by (simp add: tab_def length_concat comp_def sum_list_triv)

lemma sum_list_concat_rows: "sum_list (concat xss) = sum_list (map sum_list xss)" for xss :: "real list list"
  by (induction xss) simp_all

lemma sum_list_concat_tab: "sum_list (concat (tab n c L)) = (\<Sum>i<n. \<Sum>j<c. (L i j :: real))"
  by (simp add: tab_def sum_list_concat_rows comp_def interv_sum_list_conv_sum_set_nat atLeast0LessThan)

lemma np_mean_tab:
  assumes "0 < n * c"
  shows "np_mean (tab n c (\<lambda>i j. Some (L i j))) = Some ((\<Sum>i<n. \<Sum>j<c. L i j) / real (n * c))"
proof -
  have "fsum (concat (tab n c (\<lambda>i j. Some (L i j)))) = Some (\<Sum>i<n. \<Sum>j<c. L i j)"
    by (simp only: concat_tab_Some fsum_Some sum_list_concat_tab)
  moreover have "real (length (concat (tab n c (\<lambda>i j. Some (L i j))))) = real (n * c)"
    by (simp only: length_concat_tab)
  moreover have "real (n * c) \<noteq> 0"
    using assms by simp
  ultimately show ?thesis
    by (simp only: np_mean_def Let_def fdiv_def if_False option.map)
qed

lemma eval_error_tab:
  assumes "\<forall>r\<in>set (label dtrain). 0 \<le> astype_int r \<and> astype_int r < int c"
    and "0 < c" and "length y_pred = length (label dtrain) * c"
  shows "focal_loss_lgb_eval_error y_pred dtrain alpha gamma c =
     Inr (''focal_loss'',
          np_mean (tab (length (label dtrain)) c
            (\<lambda>i j. fl alpha gamma (y_pred ! (i * c + j))
                     (if nat (astype_int (label dtrain ! i)) = j then 1 else 0))),
          False)"
  unfolding focal_loss_lgb_eval_error_def Let_def one_hot_tab [OF assms(1)]
    reshape_tab [OF assms(2) assms(3)] sum.case map_tab broadcast2_tab eval_loss_fl
  by (rule refl)

lemma fl_tab_spec:
  "tab n c (\<lambda>i j. fl a g (X i j) (if K i = j then 1 else 0)) =
   tab n c (\<lambda>i j. Some (spec_loss a g (X i j) (if K i = j then 1 else 0)))"
proof -
  have "fl a g (X i j) (if K i = j then 1 else 0) = Some (spec_loss a g (X i j) (if K i = j then 1 else 0))" for i j
    by (rule fl_one_hot) simp
  then show ?thesis by simp
qed

text \<open>
  \<^bold>\<open>C4.\<close> Whenever \<open>focal_loss_lgb_eval_error\<close> returns, the name is \<open>'focal_loss'\<close> and the
  flag is \<open>False\<close>; for \<open>N > 0\<close> valid labels and \<open>N * C\<close> predictions it returns the
  arithmetic mean of the loss over the \<open>N * C\<close> cells of the one-hot expansion.
\<close>

theorem eval_error_triple:
  "(\<forall>r. focal_loss_lgb_eval_error y_pred dtrain alpha gamma C = Inr r \<longrightarrow>
        fst r = ''focal_loss'' \<and> snd (snd r) = False) \<and>
   ((\<forall>r\<in>set (label dtrain). 0 \<le> astype_int r \<and> astype_int r < int C) \<and>
    length (label dtrain) = N \<and> 0 < N \<and> length y_pred = N * C \<longrightarrow>
    focal_loss_lgb_eval_error y_pred dtrain alpha gamma C =
      Inr (''focal_loss'',
           Some ((\<Sum>i<N. \<Sum>j<C. spec_loss alpha gamma (y_pred ! (i * C + j))
                    (if nat (astype_int (label dtrain ! i)) = j then 1 else 0)) / real (N * C)),
           False))"
proof (intro conjI allI impI)
  fix r
  assume "focal_loss_lgb_eval_error y_pred dtrain alpha gamma C = Inr r"
  then show "fst r = ''focal_loss''" and "snd (snd r) = False"
    by (auto simp: focal_loss_lgb_eval_error_def Let_def split: sum.splits)
next
  assume h: "(\<forall>r\<in>set (label dtrain). 0 \<le> astype_int r \<and> astype_int r < int C) \<and>
    length (label dtrain) = N \<and> 0 < N \<and> length y_pred = N * C"
  then have "label dtrain \<noteq> []"
    by auto
  then obtain r where "r \<in> set (label dtrain)"
    by (cases "label dtrain") auto
  then have C: "0 < C"
    using h by fastforce
  have len: "length y_pred = length (label dtrain) * C"
    using h by simp
  have pos: "0 < N * C"
    using h C by simp
  have "focal_loss_lgb_eval_error y_pred dtrain alpha gamma C =
     Inr (''focal_loss'',
          np_mean (tab N C
            (\<lambda>i j. fl alpha gamma (y_pred ! (i * C + j))
                     (if nat (astype_int (label dtrain ! i)) = j then 1 else 0))),
          False)"
    using eval_error_tab [OF _ C len, of alpha gamma] h by simp
  then show "focal_loss_lgb_eval_error y_pred dtrain alpha gamma C =
      Inr (''focal_loss'',
           Some ((\<Sum>i<N. \<Sum>j<C. spec_loss alpha gamma (y_pred ! (i * C + j))
                    (if nat (astype_int (label dtrain ! i)) = j then 1 else 0)) / real (N * C)),
           False)"
    unfolding fl_tab_spec np_mean_tab [OF pos] .
qed

theorem eval_error_triple_witness:
  "0 \<le> astype_int 0 \<and> astype_int 0 < int 3 \<and> length [0::real] = 1 \<and> (0::nat) < 1 \<and>
   length [2::real, - 1, - 1] = 1 * 3 \<and>
   focal_loss_lgb_eval_error [2, - 1, - 1] \<lparr>label = [0]\<rparr> (1 / 4) 2 3 =
     Inr (''focal_loss'',
          Some ((spec_loss (1 / 4) 2 2 1 + spec_loss (1 / 4) 2 (- 1) 0 + spec_loss (1 / 4) 2 (- 1) 0) / 3),
          False)"
proof -
  have a: "astype_int 0 = 0"
    by (simp add: astype_int_def)
  have s: "{..<3::nat} = {0, 1, 2}" "{..<1::nat} = {0}"
    by auto
  show ?thesis
    using eval_error_triple [of "[2, - 1, - 1]" "\<lparr>label = [0]\<rparr>" "1 / 4" 2 3 1]
    by (simp add: a s)
qed

section \<open>Rounding to float64\<close>



lemma rhe_of_int: "round_half_even (of_int n) = n"
  by (simp add: round_half_even_def)







section \<open>The sigmoid and the loss in float64\<close>











lemma f64_add_NaN_right [simp]: "f64_add u NaN = NaN"
  by (cases u) simp_all

lemma f64_mul_NaN_right [simp]: "f64_mul u NaN = NaN"
  by (cases u) simp_all












end
